theory Spec2Isabelle
  imports Complex_Main
begin

section \<open>Strings and numbers of the JavaScript runtime\<close>

text \<open>
  \<open>hashOtp.split("#")\<close>: JavaScript's split on a one-character separator. The result
  always has one field more than the string has separators; empty fields are kept
  (\<open>"".split("#")\<close> is \<open>[""]\<close>, \<open>"a##".split("#")\<close> is \<open>["a", "", ""]\<close>).
  \<open>splitFrom\<close> scans the string with the field read so far.
\<close>

fun splitFrom :: "char \<Rightarrow> string \<Rightarrow> string \<Rightarrow> string list" where
  "splitFrom c field [] = [field]"
| "splitFrom c field (x # xs) =
     (if x = c then field # splitFrom c [] xs else splitFrom c (field @ [x]) xs)"

definition split :: "char \<Rightarrow> string \<Rightarrow> string list" where
  "split c s = splitFrom c [] s"

text \<open>
  A template literal renders a number in decimal. The numbers rendered by the controller
  are integers (an epoch time in milliseconds, a database id), for which
  \<open>Number.prototype.toString\<close> gives the digits, with a leading minus sign below zero.
\<close>

definition digitChar :: "nat \<Rightarrow> char" where
  "digitChar d = ''0123456789'' ! d"

fun natToString :: "nat \<Rightarrow> string" where
  "natToString n =
     (if n < 10 then [digitChar n] else natToString (n div 10) @ [digitChar (n mod 10)])"

declare natToString.simps [simp del]

definition numberToString :: "int \<Rightarrow> string" where
  "numberToString i = (if i < 0 then CHR ''-'' # natToString (nat (- i)) else natToString (nat i))"

text \<open>
  A JavaScript number, as far as the controller looks at one: it compares \<open>Date.now()\<close>
  with \<open>+expires\<close> and hands \<open>Number(tokenId)\<close> on. A finite double is a rational.
\<close>

datatype jsnum = NaN | NegInfinity | Finite rat | PosInfinity

text \<open>\<open>Date.now() > x\<close>: every comparison with \<open>NaN\<close> is false.\<close>

fun now_gt :: "int \<Rightarrow> jsnum \<Rightarrow> bool" where
  "now_gt n NaN = False"
| "now_gt n NegInfinity = True"
| "now_gt n (Finite r) = (of_int n > r)"
| "now_gt n PosInfinity = False"

section \<open>Data of the controller\<close>

text \<open>
  \<open>createHttpError(status, message)\<close> builds an \<open>HttpError\<close>; anything else a collaborator
  throws is \<open>Thrown\<close> with its message.
\<close>

datatype error = HttpError nat string | Thrown string

datatype role = CUSTOMER | ADMIN

record user =
  user_id :: int
  user_fullName :: string
  user_email :: string
  user_password :: "string option"
  user_role :: role

text \<open>The argument of \<open>userService.saveUser\<close>.\<close>

record userData =
  data_fullName :: string
  data_email :: string
  data_password :: string
  data_role :: role

text \<open>\<open>TPayload\<close>, and the refresh token's payload \<open>{...payload, tokenId}\<close>.\<close>

record payload =
  userId :: string
  role :: role

record refreshPayload = payload +
  tokenId :: string

text \<open>What \<open>tokenService.saveRefreshToken\<close> returns; the controller reads its \<open>id\<close>.\<close>

record tokenRef =
  tokenRef_id :: int

record cookieOptions =
  cookie_domain :: string
  cookie_sameSite :: string
  cookie_httpOnly :: bool
  cookie_maxAge :: nat

text \<open>The bodies handed to \<open>res.json\<close>.\<close>

datatype body =
    ValidationErrors "string list"
  | SendOtpBody string string string string
  | UserBody user
  | LogoutBody "user option" string

text \<open>
  The requests. \<open>validationResult(req)\<close> reads what the validators upstream left on the
  request: the list \<open>result.array()\<close>, empty when the request is valid.
\<close>

record sendOtpRequest =
  send_errors :: "string list"
  send_fullName :: string
  send_email :: string
  send_password :: string
  send_confirmPassword :: string

record verifyOtpRequest =
  verify_errors :: "string list"
  verify_fullName :: string
  verify_email :: string
  verify_otp :: string
  verify_hashOtp :: string

record loginRequest =
  login_errors :: "string list"
  login_email :: string
  login_password :: string

record authRequest =
  auth_userId :: string
  auth_tokenId :: string

section \<open>Effects\<close>

text \<open>
  A handler's run is the list of what it does, in order: each call of a collaborator with
  its argument and what came back (\<open>Inl\<close> when it threw), and each call on the response
  (\<open>res.status\<close>, \<open>res.json\<close>, \<open>res.cookie\<close>, \<open>res.clearCookie\<close>) and of \<open>next(err)\<close>.
\<close>

datatype event =
    LoggerInfo string string
  | FindUserByEmail string "error + user option"
  | FindUserByEmailWithPassword string "error + user option"
  | SaveUser userData "error + user option"
  | HashDataUsingBcrypt string "error + string"
  | GenerateOtp "error + string"
  | HashCompare string "string option" "error + bool"
  | SignAccessToken payload "error + string"
  | SaveRefreshToken user "error + tokenRef"
  | SignRefreshToken refreshPayload "error + string"
  | DeleteToken jsnum "error + bool"
  | ResStatus nat
  | ResJson body
  | ResCookie string string cookieOptions
  | ResClearCookie string
  | Next error

text \<open>
  The collaborators and the runtime. \<open>UserService\<close>, \<open>CredentialService\<close> and
  \<open>TokenService\<close> are constructor arguments of the controller, so they are parameters
  here: a call takes the world \<open>'w\<close> (database, random source, clock of the token signer)
  and returns a result or the error thrown, with the world after the call.
  \<open>hashDataUsingCrypto\<close> is the keyed digest: it reads nothing but its argument and the
  process-wide secret, so it is a function of its argument, and may throw.
  \<open>toNumber\<close> is the runtime's conversion of a string to a number, behind both the
  unary \<open>+expires\<close> and \<open>Number(req.auth.tokenId)\<close>.
\<close>

record 'w env =
  toNumber :: "string \<Rightarrow> jsnum"
  findUserByEmail :: "string \<Rightarrow> 'w \<Rightarrow> (error + user option) \<times> 'w"
  findUserByEmailWithPassword :: "string \<Rightarrow> 'w \<Rightarrow> (error + user option) \<times> 'w"
  saveUser :: "userData \<Rightarrow> 'w \<Rightarrow> (error + user option) \<times> 'w"
  hashDataUsingBcrypt :: "string \<Rightarrow> 'w \<Rightarrow> (error + string) \<times> 'w"
  generateOtp :: "'w \<Rightarrow> (error + string) \<times> 'w"
  hashDataUsingCrypto :: "string \<Rightarrow> error + string"
  hashCompare :: "string \<Rightarrow> string option \<Rightarrow> 'w \<Rightarrow> (error + bool) \<times> 'w"
  signAccessToken :: "payload \<Rightarrow> 'w \<Rightarrow> (error + string) \<times> 'w"
  saveRefreshToken :: "user \<Rightarrow> 'w \<Rightarrow> (error + tokenRef) \<times> 'w"
  signRefreshToken :: "refreshPayload \<Rightarrow> 'w \<Rightarrow> (error + string) \<times> 'w"
  deleteToken :: "jsnum \<Rightarrow> 'w \<Rightarrow> (error + bool) \<times> 'w"

section \<open>The controller\<close>

text \<open>The string both handlers hash: \<open>`${otp}.${email}.${expires}.${hashPassword}`\<close>.\<close>

definition prepareDataForHash :: "string \<Rightarrow> string \<Rightarrow> string \<Rightarrow> string \<Rightarrow> string" where
  "prepareDataForHash otp email expires hashPassword =
     otp @ ''.'' @ email @ ''.'' @ expires @ ''.'' @ hashPassword"

definition ttl :: int where
  "ttl = 1000 * 60 * 10"

definition accessCookieOptions :: cookieOptions where
  "accessCookieOptions =
     \<lparr>cookie_domain = ''localhost'', cookie_sameSite = ''strict'', cookie_httpOnly = True,
      cookie_maxAge = 1000 * 60 * 60 * 24\<rparr>"

definition refreshCookieOptions :: cookieOptions where
  "refreshCookieOptions =
     \<lparr>cookie_domain = ''localhost'', cookie_sameSite = ''strict'', cookie_httpOnly = True,
      cookie_maxAge = 1000 * 60 * 60 * 24 * 365\<rparr>"

text \<open>
  \<open>sendOtp\<close>. \<open>now\<close> is what \<open>Date.now()\<close> returns on line 67. The response carries the
  envelope \<open>hashOtp\<close> and, as the source still does, the otp itself.
\<close>

definition sendOtp :: "'w env \<Rightarrow> sendOtpRequest \<Rightarrow> int \<Rightarrow> 'w \<Rightarrow> event list" where
  "sendOtp E req now w =
    (if send_errors req \<noteq> [] then [ResStatus 400, ResJson (ValidationErrors (send_errors req))]
     else
      LoggerInfo (send_fullName req) (send_email req) #
      (if send_password req \<noteq> send_confirmPassword req
       then [Next (HttpError 400 ''confirm password not match to password!'')]
       else
        (case findUserByEmail E (send_email req) w of (found, w1) \<Rightarrow>
          FindUserByEmail (send_email req) found #
          (case found of
             Inl err \<Rightarrow> [Next err]
           | Inr (Some u) \<Rightarrow> [Next (HttpError 400 ''This email already registered!'')]
           | Inr None \<Rightarrow>
              (case hashDataUsingBcrypt E (send_password req) w1 of (hashed, w2) \<Rightarrow>
                HashDataUsingBcrypt (send_password req) hashed #
                (case hashed of
                   Inl err \<Rightarrow> [Next err]
                 | Inr hashPassword \<Rightarrow>
                    (let expires = now + ttl in
                     case generateOtp E w2 of (generated, w3) \<Rightarrow>
                      GenerateOtp generated #
                      (case generated of
                         Inl err \<Rightarrow> [Next err]
                       | Inr otp \<Rightarrow>
                          (case hashDataUsingCrypto E
                                  (prepareDataForHash otp (send_email req)
                                     (numberToString expires) hashPassword) of
                             Inl err \<Rightarrow> [Next err]
                           | Inr hashOtpData \<Rightarrow>
                              [ResJson (SendOtpBody (send_fullName req) (send_email req)
                                 (hashOtpData @ ''#'' @ numberToString expires @ ''#'' @ hashPassword)
                                 otp)])))))))))"

text \<open>
  \<open>verifyOtp\<close>. \<open>now\<close> is what \<open>Date.now()\<close> returns on line 120. When \<open>saveUser\<close> throws,
  the catch block calls \<open>next(error)\<close> and does not return, so \<open>next\<close> is called a second
  time with the 500 error.
\<close>

definition verifyOtp :: "'w env \<Rightarrow> verifyOtpRequest \<Rightarrow> int \<Rightarrow> 'w \<Rightarrow> event list" where
  "verifyOtp E req now w =
    (if verify_errors req \<noteq> [] then [ResStatus 400, ResJson (ValidationErrors (verify_errors req))]
     else
      (case findUserByEmail E (verify_email req) w of (found, w1) \<Rightarrow>
        FindUserByEmail (verify_email req) found #
        (case found of
           Inl err \<Rightarrow> [Next err]
         | Inr (Some u) \<Rightarrow> [Next (HttpError 400 ''This email already registered!'')]
         | Inr None \<Rightarrow>
            (if length (split CHR ''#'' (verify_hashOtp req)) \<noteq> 3
             then [Next (HttpError 400 ''Otp is invalid!'')]
             else
              (let prevHashedOtp = split CHR ''#'' (verify_hashOtp req) ! 0;
                   expires = split CHR ''#'' (verify_hashOtp req) ! 1;
                   hashPassword = split CHR ''#'' (verify_hashOtp req) ! 2
               in
                if now_gt now (toNumber E expires) then [Next (HttpError 408 ''Otp is expired!'')]
                else
                 (case hashDataUsingCrypto E
                         (prepareDataForHash (verify_otp req) (verify_email req) expires hashPassword) of
                    Inl err \<Rightarrow> [Next err]
                  | Inr hashOtpData \<Rightarrow>
                     if hashOtpData \<noteq> prevHashedOtp then [Next (HttpError 400 ''Otp is invalid!'')]
                     else
                      (let userData =
                             \<lparr>data_fullName = verify_fullName req, data_email = verify_email req,
                              data_password = hashPassword, data_role = CUSTOMER\<rparr>
                       in
                        case saveUser E userData w1 of (saved, w2) \<Rightarrow>
                         SaveUser userData saved #
                         (case saved of
                            Inl err \<Rightarrow> [Next err, Next (HttpError 500 ''Internal Server Error!'')]
                          | Inr None \<Rightarrow> [Next (HttpError 500 ''Internal Server Error!'')]
                          | Inr (Some user) \<Rightarrow>
                             (let payload = \<lparr>userId = numberToString (user_id user), role = user_role user\<rparr>
                              in
                               case signAccessToken E payload w2 of (signedA, w3) \<Rightarrow>
                                SignAccessToken payload signedA #
                                (case signedA of
                                   Inl err \<Rightarrow> [Next err]
                                 | Inr accessToken \<Rightarrow>
                                    (case saveRefreshToken E user w3 of (savedT, w4) \<Rightarrow>
                                      SaveRefreshToken user savedT #
                                      (case savedT of
                                         Inl err \<Rightarrow> [Next err]
                                       | Inr tokenRef \<Rightarrow>
                                          (let refresh =
                                                 \<lparr>userId = userId payload, role = role payload,
                                                  tokenId = numberToString (tokenRef_id tokenRef)\<rparr>
                                           in
                                            case signRefreshToken E refresh w4 of (signedR, w5) \<Rightarrow>
                                             SignRefreshToken refresh signedR #
                                             (case signedR of
                                                Inl err \<Rightarrow> [Next err]
                                              | Inr refreshToken \<Rightarrow>
                                                 [ResCookie ''accessToken'' accessToken accessCookieOptions,
                                                  ResCookie ''refreshToken'' refreshToken refreshCookieOptions,
                                                  ResJson (UserBody user)]))))))))))))))"

text \<open>\<open>logout\<close>: \<open>Number(req.auth.tokenId)\<close>, then \<open>deleteToken\<close>, whose result is not read.\<close>

definition logout :: "'w env \<Rightarrow> authRequest \<Rightarrow> 'w \<Rightarrow> event list" where
  "logout E req w =
    (let tokenId = toNumber E (auth_tokenId req) in
     case deleteToken E tokenId w of (deleted, w1) \<Rightarrow>
      DeleteToken tokenId deleted #
      (case deleted of
         Inl err \<Rightarrow> [Next err]
       | Inr found \<Rightarrow>
          [ResClearCookie ''accessToken'', ResClearCookie ''refreshToken'',
           ResJson (LogoutBody None ''User successfully logout.'')]))"

text \<open>\<open>login\<close>. The body returned is \<open>{ ...user, password: null }\<close>.\<close>

definition login :: "'w env \<Rightarrow> loginRequest \<Rightarrow> 'w \<Rightarrow> event list" where
  "login E req w =
    (if login_errors req \<noteq> [] then [ResStatus 400, ResJson (ValidationErrors (login_errors req))]
     else
      (case findUserByEmailWithPassword E (login_email req) w of (found, w1) \<Rightarrow>
        FindUserByEmailWithPassword (login_email req) found #
        (case found of
           Inl err \<Rightarrow> [Next err]
         | Inr None \<Rightarrow> [Next (HttpError 400 ''Email or Password does not match!'')]
         | Inr (Some user) \<Rightarrow>
            (case hashCompare E (login_password req) (user_password user) w1 of (compared, w2) \<Rightarrow>
              HashCompare (login_password req) (user_password user) compared #
              (case compared of
                 Inl err \<Rightarrow> [Next err]
               | Inr isMatch \<Rightarrow>
                  if \<not> isMatch then [Next (HttpError 400 ''Email or Password does not match!'')]
                  else
                   (let payload = \<lparr>userId = numberToString (user_id user), role = user_role user\<rparr>
                    in
                     case signAccessToken E payload w2 of (signedA, w3) \<Rightarrow>
                      SignAccessToken payload signedA #
                      (case signedA of
                         Inl err \<Rightarrow> [Next err]
                       | Inr accessToken \<Rightarrow>
                          (case saveRefreshToken E user w3 of (savedT, w4) \<Rightarrow>
                            SaveRefreshToken user savedT #
                            (case savedT of
                               Inl err \<Rightarrow> [Next err]
                             | Inr tokenRef \<Rightarrow>
                                (let refresh =
                                       \<lparr>userId = userId payload, role = role payload,
                                        tokenId = numberToString (tokenRef_id tokenRef)\<rparr>
                                 in
                                  case signRefreshToken E refresh w4 of (signedR, w5) \<Rightarrow>
                                   SignRefreshToken refresh signedR #
                                   (case signedR of
                                      Inl err \<Rightarrow> [Next err]
                                    | Inr refreshToken \<Rightarrow>
                                       [ResCookie ''accessToken'' accessToken accessCookieOptions,
                                        ResCookie ''refreshToken'' refreshToken refreshCookieOptions,
                                        ResJson (UserBody (user\<lparr>user_password := None\<rparr>))])))))))))))"

section \<open>Reading a run\<close>

text \<open>What reaches the client or the error middleware: the calls on \<open>res\<close> and of \<open>next\<close>.\<close>

fun isResponse :: "event \<Rightarrow> bool" where
  "isResponse (ResStatus s) = True"
| "isResponse (ResJson b) = True"
| "isResponse (ResCookie n v opts) = True"
| "isResponse (ResClearCookie n) = True"
| "isResponse (Next err) = True"
| "isResponse ev = False"

definition response :: "event list \<Rightarrow> event list" where
  "response run = filter isResponse run"


fun isSaveUser :: "event \<Rightarrow> bool" where
  "isSaveUser (SaveUser d r) = True"
| "isSaveUser ev = False"



text \<open>
  A collaborator call of the last part of \<open>verifyOtp\<close> and \<open>login\<close> (registering the
  user, signing, saving the refresh token) that threw, or a \<open>saveUser\<close> that returned
  no user.
\<close>

fun isFailure :: "event \<Rightarrow> bool" where
  "isFailure (SaveUser d (Inl err)) = True"
| "isFailure (SaveUser d (Inr None)) = True"
| "isFailure (SignAccessToken p (Inl err)) = True"
| "isFailure (SaveRefreshToken u (Inl err)) = True"
| "isFailure (SignRefreshToken p (Inl err)) = True"
| "isFailure ev = False"

text \<open>
  The otp check of \<open>verifyOtp\<close> (lines 111 to 136) is passed when the handler goes on to
  register the user, which starts with the call of \<open>saveUser\<close>.
\<close>

definition otpAccepted :: "event list \<Rightarrow> bool" where
  "otpAccepted run = list_ex isSaveUser run"

section \<open>An in-memory instance of the collaborators\<close>

text \<open>
  Modelled from the spec: \<open>UserService\<close>, \<open>TokenService\<close> and \<open>CredentialService\<close> are
  not among the source files, so the instance below follows the spec's collaborator
  interfaces (section 6): a user store with find-by-email and save, where the password
  hash is included only in what \<open>findByEmailWithPassword\<close> returns, so that \<open>save\<close> stores
  the hash and returns the new user without it; a refresh-token store with create and
  delete-by-id. The digest, the password hash and
  the signatures are readable stand-ins that keep their argument. It serves to run the
  handlers on concrete requests; no general theorem depends on it.
\<close>

record world =
  users :: "user list"
  tokens :: "int list"

text \<open>
  The runtime's conversion on the strings the examples hand it: a non-empty string of
  decimal digits is the number it writes. (On other strings the runtime accepts more:
  white space, signs, exponents, other bases. The stand-in gives \<open>NaN\<close> there and is never
  applied there.)
\<close>

definition digitsToNumber :: "string \<Rightarrow> jsnum" where
  "digitsToNumber s =
     (if s \<noteq> [] \<and> list_all (\<lambda>c. c \<in> set ''0123456789'') s
      then Finite (of_nat (foldl (\<lambda>acc c. 10 * acc + (of_char c - 48)) 0 s))
      else NaN)"

definition memEnv :: "world env" where
  "memEnv =
     \<lparr>toNumber = digitsToNumber,
      findUserByEmail = (\<lambda>email w.
         (Inr (map_option (\<lambda>u. u\<lparr>user_password := None\<rparr>)
                 (find (\<lambda>u. user_email u = email) (users w))), w)),
      findUserByEmailWithPassword = (\<lambda>email w.
         (Inr (find (\<lambda>u. user_email u = email) (users w)), w)),
      saveUser = (\<lambda>d w.
         (let u = \<lparr>user_id = int (length (users w)) + 1, user_fullName = data_fullName d,
                   user_email = data_email d, user_password = Some (data_password d),
                   user_role = data_role d\<rparr>
          in (Inr (Some (u\<lparr>user_password := None\<rparr>)), w\<lparr>users := users w @ [u]\<rparr>))),
      hashDataUsingBcrypt = (\<lambda>password w. (Inr (''$2b$'' @ password), w)),
      generateOtp = (\<lambda>w. (Inr ''1234'', w)),
      hashDataUsingCrypto = (\<lambda>material. Inr (''h:'' @ material)),
      hashCompare = (\<lambda>password hash w. (Inr (hash = Some (''$2b$'' @ password)), w)),
      signAccessToken = (\<lambda>p w. (Inr (''at.'' @ userId p), w)),
      saveRefreshToken = (\<lambda>u w.
         (let i = int (length (tokens w)) + 1
          in (Inr \<lparr>tokenRef_id = i\<rparr>, w\<lparr>tokens := tokens w @ [i]\<rparr>))),
      signRefreshToken = (\<lambda>p w. (Inr (''rt.'' @ userId p @ ''.'' @ tokenId p), w)),
      deleteToken = (\<lambda>n w.
         (Inr (list_ex (\<lambda>i. Finite (of_int i) = n) (tokens w)),
          w\<lparr>tokens := filter (\<lambda>i. Finite (of_int i) \<noteq> n) (tokens w)\<rparr>))\<rparr>"

definition ann :: user where
  "ann = \<lparr>user_id = 1, user_fullName = ''Ann'', user_email = ''ann@x.com'',
          user_password = Some ''$2b$p1'', user_role = CUSTOMER\<rparr>"

definition emptyWorld :: world where
  "emptyWorld = \<lparr>users = [], tokens = []\<rparr>"

definition annWorld :: world where
  "annWorld = \<lparr>users = [ann], tokens = []\<rparr>"

text \<open>The spec's end-to-end scenario: Ann registers with password \<open>p1\<close>.\<close>

definition annSend :: sendOtpRequest where
  "annSend = \<lparr>send_errors = [], send_fullName = ''Ann'', send_email = ''ann@x.com'',
     send_password = ''p1'', send_confirmPassword = ''p1''\<rparr>"

definition annVerify :: verifyOtpRequest where
  "annVerify = \<lparr>verify_errors = [], verify_fullName = ''Ann'', verify_email = ''ann@x.com'',
     verify_otp = ''1234'', verify_hashOtp = ''h:1234.ann@x.com.601000.$2b$p1#601000#$2b$p1''\<rparr>"

definition annLogin :: loginRequest where
  "annLogin = \<lparr>login_errors = [], login_email = ''ann@x.com'', login_password = ''p1''\<rparr>"

text \<open>Bob registers while Ann already is a user.\<close>

definition bobVerify :: verifyOtpRequest where
  "bobVerify = \<lparr>verify_errors = [], verify_fullName = ''Bob'', verify_email = ''bob@x.com'',
     verify_otp = ''1234'', verify_hashOtp = ''h:1234.bob@x.com.601000.$2b$p1#601000#$2b$p1''\<rparr>"


text \<open>A logout with token id 7, in a world that holds that refresh token.\<close>

definition annLogout :: authRequest where
  "annLogout = \<lparr>auth_userId = ''1'', auth_tokenId = ''7''\<rparr>"

definition sessionWorld :: world where
  "sessionWorld = \<lparr>users = [ann], tokens = [7]\<rparr>"


text \<open>
  The condition the spec states for a successful verification (section 8), in its words:
  the envelope has exactly three fields, \<open>now <= expiresAt\<close>, and the digest recomputed
  from the submitted otp and email and the envelope's second and third field equals the
  envelope's first field. It is compared with what \<open>verifyOtp\<close> does.
\<close>

definition specVerifies :: "'w env \<Rightarrow> string \<Rightarrow> string \<Rightarrow> string \<Rightarrow> int \<Rightarrow> int \<Rightarrow> bool" where
  "specVerifies E otp email hashOtp expiresAt now \<longleftrightarrow>
     length (split CHR ''#'' hashOtp) = 3 \<and>
     now \<le> expiresAt \<and>
     hashDataUsingCrypto E
       (prepareDataForHash otp email (split CHR ''#'' hashOtp ! 1) (split CHR ''#'' hashOtp ! 2))
       = Inr (split CHR ''#'' hashOtp ! 0)"

section \<open>Facts about the strings\<close>

lemma length_splitFrom: "length (splitFrom c field s) = Suc (count_list s c)"
  by (induction s arbitrary: field) auto

lemma length_split: "length (split c s) = Suc (count_list s c)"
  by (simp add: split_def length_splitFrom)

lemma splitFrom_no_sep: "c \<notin> set s \<Longrightarrow> splitFrom c field s = [field @ s]"
  by (induction s arbitrary: field) auto

lemma splitFrom_append:
  "c \<notin> set a \<Longrightarrow> splitFrom c field (a @ c # b) = (field @ a) # splitFrom c [] b"
  by (induction a arbitrary: field) auto

lemma split_no_sep: "c \<notin> set s \<Longrightarrow> split c s = [s]"
  by (simp add: split_def splitFrom_no_sep)

lemma split_append: "c \<notin> set a \<Longrightarrow> split c (a @ c # b) = a # split c b"
  by (simp add: split_def splitFrom_append)

lemma split_three:
  "c \<notin> set a \<Longrightarrow> c \<notin> set b \<Longrightarrow> c \<notin> set d \<Longrightarrow> split c (a @ [c] @ b @ [c] @ d) = [a, b, d]"
  by (simp add: split_append split_no_sep)

lemma split_three_only:
  assumes "length (split c (a @ [c] @ b @ [c] @ d)) = 3"
  shows "c \<notin> set a \<and> c \<notin> set b \<and> c \<notin> set d"
  using assms by (simp add: length_split count_list_0_iff)

lemma digitChar_not_hash: "d < 10 \<Longrightarrow> digitChar d \<noteq> CHR ''#''"
proof -
  assume "d < 10"
  then have "digitChar d \<in> set ''0123456789''"
    unfolding digitChar_def by (intro nth_mem) simp
  then show ?thesis by auto
qed

lemma natToString_no_hash: "CHR ''#'' \<notin> set (natToString n)"
proof (induction n rule: natToString.induct)
  case (1 n)
  show ?case
  proof (cases "n < 10")
    case True
    then show ?thesis using digitChar_not_hash[of n] by (subst natToString.simps) simp
  next
    case False
    then show ?thesis using 1 digitChar_not_hash[of "n mod 10"]
      by (subst natToString.simps) simp
  qed
qed

lemma numberToString_no_hash: "CHR ''#'' \<notin> set (numberToString i)"
  by (simp add: numberToString_def natToString_no_hash)

lemma split_more_than_three:
  assumes "c \<in> set a \<or> c \<in> set b \<or> c \<in> set d"
  shows "length (split c (a @ [c] @ b @ [c] @ d)) \<noteq> 3"
  using assms by (auto simp: length_split count_list_0_iff)

lemma prepareDataForHash_otp:
  "prepareDataForHash a b c d = prepareDataForHash a' b c d \<longleftrightarrow> a = a'"
  by (simp add: prepareDataForHash_def)

lemma prepareDataForHash_email:
  "prepareDataForHash a b c d = prepareDataForHash a b' c d \<longleftrightarrow> b = b'"
  by (simp add: prepareDataForHash_def)

lemma prepareDataForHash_expires:
  "prepareDataForHash a b c d = prepareDataForHash a b c' d \<longleftrightarrow> c = c'"
  by (simp add: prepareDataForHash_def)

lemma prepareDataForHash_hashPassword:
  "prepareDataForHash a b c d = prepareDataForHash a b c d' \<longleftrightarrow> d = d'"
  by (simp add: prepareDataForHash_def)

section \<open>Facts about the handlers\<close>

lemma sendOtp_body:
  assumes "ResJson (SendOtpBody fullName email hashOtp otp) \<in> set (sendOtp E req now w)"
  shows "\<exists>hashOtpData hashPassword.
           hashDataUsingCrypto E
             (prepareDataForHash otp (send_email req) (numberToString (now + ttl)) hashPassword)
             = Inr hashOtpData \<and>
           hashOtp = hashOtpData @ ''#'' @ numberToString (now + ttl) @ ''#'' @ hashPassword"
  using assms unfolding sendOtp_def
  by (auto simp: Let_def split_beta split: if_splits sum.splits option.splits)

lemma otpAccepted_verifyOtp:
  assumes "verify_errors req = []"
  shows "otpAccepted (verifyOtp E req now w) \<longleftrightarrow>
           fst (findUserByEmail E (verify_email req) w) = Inr None \<and>
           length (split CHR ''#'' (verify_hashOtp req)) = 3 \<and>
           \<not> now_gt now (toNumber E (split CHR ''#'' (verify_hashOtp req) ! 1)) \<and>
           hashDataUsingCrypto E
             (prepareDataForHash (verify_otp req) (verify_email req)
                (split CHR ''#'' (verify_hashOtp req) ! 1) (split CHR ''#'' (verify_hashOtp req) ! 2))
             = Inr (split CHR ''#'' (verify_hashOtp req) ! 0)"
  using assms unfolding verifyOtp_def otpAccepted_def
  by (auto simp: Let_def split_beta split: sum.splits option.splits)

lemma verifyOtp_registered:
  assumes "verify_errors req = []"
    and "fst (findUserByEmail E (verify_email req) w) = Inr (Some u)"
  shows "verifyOtp E req now w =
           [FindUserByEmail (verify_email req) (Inr (Some u)),
            Next (HttpError 400 ''This email already registered!'')]"
  using assms unfolding verifyOtp_def by (simp add: split_beta)

lemma verifyOtp_malformed:
  assumes "verify_errors req = []"
    and "fst (findUserByEmail E (verify_email req) w) = Inr None"
    and "length (split CHR ''#'' (verify_hashOtp req)) \<noteq> 3"
  shows "verifyOtp E req now w =
           [FindUserByEmail (verify_email req) (Inr None), Next (HttpError 400 ''Otp is invalid!'')]"
  using assms unfolding verifyOtp_def by (simp add: split_beta)

lemma verifyOtp_expired:
  assumes "verify_errors req = []"
    and "fst (findUserByEmail E (verify_email req) w) = Inr None"
    and "split CHR ''#'' (verify_hashOtp req) = [prevHashedOtp, expires, hashPassword]"
    and "now_gt now (toNumber E expires)"
  shows "verifyOtp E req now w =
           [FindUserByEmail (verify_email req) (Inr None), Next (HttpError 408 ''Otp is expired!'')]"
  using assms unfolding verifyOtp_def by (simp add: split_beta)

lemma verifyOtp_mismatch:
  assumes "verify_errors req = []"
    and "fst (findUserByEmail E (verify_email req) w) = Inr None"
    and "split CHR ''#'' (verify_hashOtp req) = [prevHashedOtp, expires, hashPassword]"
    and "\<not> now_gt now (toNumber E expires)"
    and "hashDataUsingCrypto E
           (prepareDataForHash (verify_otp req) (verify_email req) expires hashPassword)
         = Inr hashOtpData"
    and "hashOtpData \<noteq> prevHashedOtp"
  shows "verifyOtp E req now w =
           [FindUserByEmail (verify_email req) (Inr None), Next (HttpError 400 ''Otp is invalid!'')]"
  using assms unfolding verifyOtp_def by (simp add: split_beta)

lemma verifyOtp_answers_user:
  "(\<exists>user. ResJson (UserBody user) \<in> set (verifyOtp E req now w)) \<longleftrightarrow>
     otpAccepted (verifyOtp E req now w) \<and> \<not> list_ex isFailure (verifyOtp E req now w)"
  unfolding verifyOtp_def otpAccepted_def
  by (auto simp: Let_def split_beta split: if_splits sum.splits option.splits)

lemma response_rejected: "response [FindUserByEmail email found, Next err] = [Next err]"
  by (simp add: response_def)

lemma digest_differs:
  assumes "inj (hashDataUsingCrypto E)"
    and "\<forall>material. \<exists>digest. hashDataUsingCrypto E material = Inr digest"
    and "hashDataUsingCrypto E material = Inr digest"
    and "material' \<noteq> material"
  shows "\<exists>digest'. hashDataUsingCrypto E material' = Inr digest' \<and> digest' \<noteq> digest"
proof -
  from assms(2) obtain digest' where d: "hashDataUsingCrypto E material' = Inr digest'"
    by blast
  have "digest' \<noteq> digest"
  proof
    assume "digest' = digest"
    with d assms(3) have "hashDataUsingCrypto E material' = hashDataUsingCrypto E material"
      by simp
    with assms(1) have "material' = material" by (simp add: inj_eq)
    with assms(4) show False by simp
  qed
  with d show ?thesis by blast
qed









lemma verifyOtp_saveUser_after_check:
  assumes "list_ex isSaveUser (verifyOtp E req now w)"
  shows "hd (verifyOtp E req now w) = FindUserByEmail (verify_email req) (Inr None)"
  using assms unfolding verifyOtp_def
  by (auto simp: Let_def split_beta split: if_splits sum.splits option.splits)

section \<open>The scenario, run\<close>

lemma memEnv_fields:
  "toNumber memEnv = digitsToNumber"
  "findUserByEmail memEnv email w =
     (Inr (map_option (\<lambda>u. u\<lparr>user_password := None\<rparr>)
             (find (\<lambda>u. user_email u = email) (users w))), w)"
  "hashDataUsingCrypto memEnv material = Inr (''h:'' @ material)"
  by (simp_all add: memEnv_def)

lemma annSend_run:
  "sendOtp memEnv annSend 1000 emptyWorld =
     [LoggerInfo ''Ann'' ''ann@x.com'', FindUserByEmail ''ann@x.com'' (Inr None),
      HashDataUsingBcrypt ''p1'' (Inr ''$2b$p1''), GenerateOtp (Inr ''1234''),
      ResJson (SendOtpBody ''Ann'' ''ann@x.com''
        ''h:1234.ann@x.com.601000.$2b$p1#601000#$2b$p1'' ''1234'')]"
  by (simp add: sendOtp_def annSend_def memEnv_def emptyWorld_def ttl_def prepareDataForHash_def
      numberToString_def natToString.simps digitChar_def)

lemma annEnvelope_split:
  "split CHR ''#'' ''h:1234.ann@x.com.601000.$2b$p1#601000#$2b$p1'' =
     [''h:1234.ann@x.com.601000.$2b$p1'', ''601000'', ''$2b$p1'']"
  by (simp add: split_def)

lemma numberToString_601000: "numberToString 601000 = ''601000''"
  by (simp add: numberToString_def natToString.simps digitChar_def)

lemma digitsToNumber_601000: "digitsToNumber ''601000'' = Finite 601000"
  by (simp add: digitsToNumber_def)

lemma annVerify_run:
  "verifyOtp memEnv annVerify 5000 emptyWorld =
     [FindUserByEmail ''ann@x.com'' (Inr None),
      SaveUser \<lparr>data_fullName = ''Ann'', data_email = ''ann@x.com'', data_password = ''$2b$p1'',
                data_role = CUSTOMER\<rparr> (Inr (Some (ann\<lparr>user_password := None\<rparr>))),
      SignAccessToken \<lparr>userId = ''1'', role = CUSTOMER\<rparr> (Inr ''at.1''),
      SaveRefreshToken (ann\<lparr>user_password := None\<rparr>) (Inr \<lparr>tokenRef_id = 1\<rparr>),
      SignRefreshToken \<lparr>userId = ''1'', role = CUSTOMER, tokenId = ''1''\<rparr> (Inr ''rt.1.1''),
      ResCookie ''accessToken'' ''at.1'' accessCookieOptions,
      ResCookie ''refreshToken'' ''rt.1.1'' refreshCookieOptions,
      ResJson (UserBody (ann\<lparr>user_password := None\<rparr>))]"
  by (simp add: verifyOtp_def annVerify_def annEnvelope_split digitsToNumber_601000
      Let_def memEnv_def emptyWorld_def prepareDataForHash_def ann_def
      numberToString_def natToString.simps digitChar_def)

lemma digitsToNumber_1000: "digitsToNumber ''1000'' = Finite 1000"
  by (simp add: digitsToNumber_def)

lemma bobEnvelope_split:
  "split CHR ''#'' ''h:1234.bob@x.com.601000.$2b$p1#601000#$2b$p1'' =
     [''h:1234.bob@x.com.601000.$2b$p1'', ''601000'', ''$2b$p1'']"
  "split CHR ''#'' ''h:1234.bob@x.com.601000.$2b$p1#1000#$2b$p1'' =
     [''h:1234.bob@x.com.601000.$2b$p1'', ''1000'', ''$2b$p1'']"
  by (simp_all add: split_def)

lemma bob_unregistered: "fst (findUserByEmail memEnv ''bob@x.com'' annWorld) = Inr None"
  by (simp add: memEnv_fields annWorld_def ann_def)

lemma ann_registered:
  "fst (findUserByEmail memEnv ''ann@x.com'' annWorld) = Inr (Some (ann\<lparr>user_password := None\<rparr>))"
  by (simp add: memEnv_fields annWorld_def ann_def)



lemma annLogout_number: "toNumber memEnv (auth_tokenId annLogout) = Finite 7"
  by (simp add: memEnv_def annLogout_def digitsToNumber_def)

section \<open>The claims\<close>

text \<open>
  C1. For an envelope that \<open>sendOtp\<close> produced, and an email no user is registered
  with, \<open>verifyOtp\<close> passes its otp check (and goes on to register the user) if and only
  if the envelope splits on \<open>#\<close> into exactly three fields, the time of the check is at
  most the expiry \<open>sendOtp\<close> wrote (its own time plus \<open>ttl\<close>), and the digest of the
  submitted otp and email with the envelope's second and third field equals the
  envelope's first field. The whole request ends with the user as its body if and only
  if, besides, none of the calls that register the user and issue the tokens fails. The
  runtime's conversion is taken to read the decimal expiry back as the number written.
\<close>

theorem verifyOtp_accepts_iff:
  assumes sent: "ResJson (SendOtpBody fullName email hashOtp otp0) \<in> set (sendOtp E sreq sendNow w0)"
    and num: "toNumber E (numberToString (sendNow + ttl)) = Finite (of_int (sendNow + ttl))"
    and valid: "verify_errors req = []"
    and envelope: "verify_hashOtp req = hashOtp"
    and unregistered: "fst (findUserByEmail E (verify_email req) w) = Inr None"
    and run: "run = verifyOtp E req now w"
  shows "(otpAccepted run \<longleftrightarrow>
            specVerifies E (verify_otp req) (verify_email req) hashOtp (sendNow + ttl) now) \<and>
         ((\<exists>user. ResJson (UserBody user) \<in> set run) \<longleftrightarrow>
            specVerifies E (verify_otp req) (verify_email req) hashOtp (sendNow + ttl) now \<and>
            \<not> list_ex isFailure run)"
proof -
  have "otpAccepted run \<longleftrightarrow>
          specVerifies E (verify_otp req) (verify_email req) hashOtp (sendNow + ttl) now"
  proof (cases "length (split CHR ''#'' hashOtp) = 3")
    case False
    then show ?thesis
      using otpAccepted_verifyOtp[OF valid, of E now w] envelope run
      by (simp add: specVerifies_def)
  next
    case True
    from sendOtp_body[OF sent] obtain d p where
      shape: "hashOtp = d @ ''#'' @ numberToString (sendNow + ttl) @ ''#'' @ p"
      by blast
    from True have "CHR ''#'' \<notin> set d"
      unfolding shape by (simp add: length_split count_list_0_iff)
    then have field: "split CHR ''#'' hashOtp ! 1 = numberToString (sendNow + ttl)"
      unfolding shape by (simp add: split_append numberToString_no_hash)
    have "now_gt now (toNumber E (split CHR ''#'' hashOtp ! 1)) \<longleftrightarrow> \<not> now \<le> sendNow + ttl"
      unfolding field num by auto
    then show ?thesis
      using otpAccepted_verifyOtp[OF valid, of E now w] envelope unregistered True run
      by (simp add: specVerifies_def)
  qed
  then show ?thesis
    using verifyOtp_answers_user[of E req now w] run by simp
qed

theorem verifyOtp_accepts_iff_witness:
  "ResJson (SendOtpBody ''Ann'' ''ann@x.com'' ''h:1234.ann@x.com.601000.$2b$p1#601000#$2b$p1'' ''1234'')
     \<in> set (sendOtp memEnv annSend 1000 emptyWorld) \<and>
   toNumber memEnv (numberToString (1000 + ttl)) = Finite (of_int (1000 + ttl)) \<and>
   verify_errors annVerify = [] \<and>
   verify_hashOtp annVerify = ''h:1234.ann@x.com.601000.$2b$p1#601000#$2b$p1'' \<and>
   fst (findUserByEmail memEnv (verify_email annVerify) emptyWorld) = Inr None \<and>
   specVerifies memEnv ''1234'' ''ann@x.com'' ''h:1234.ann@x.com.601000.$2b$p1#601000#$2b$p1''
     (1000 + ttl) 5000 \<and>
   otpAccepted (verifyOtp memEnv annVerify 5000 emptyWorld) \<and>
   (\<exists>user. ResJson (UserBody user) \<in> set (verifyOtp memEnv annVerify 5000 emptyWorld)) \<and>
   \<not> otpAccepted (verifyOtp memEnv annVerify 601001 emptyWorld)"
proof -
  have sent: "ResJson (SendOtpBody ''Ann'' ''ann@x.com''
      ''h:1234.ann@x.com.601000.$2b$p1#601000#$2b$p1'' ''1234'')
     \<in> set (sendOtp memEnv annSend 1000 emptyWorld)"
    by (simp add: annSend_run)
  have num: "toNumber memEnv (numberToString (1000 + ttl)) = Finite (of_int (1000 + ttl))"
    by (simp add: ttl_def numberToString_601000 memEnv_fields digitsToNumber_601000)
  have valid: "verify_errors annVerify = []"
    by (simp add: annVerify_def)
  have envelope: "verify_hashOtp annVerify = ''h:1234.ann@x.com.601000.$2b$p1#601000#$2b$p1''"
    by (simp add: annVerify_def)
  have unregistered: "fst (findUserByEmail memEnv (verify_email annVerify) emptyWorld) = Inr None"
    by (simp add: memEnv_fields emptyWorld_def)
  have spec: "specVerifies memEnv ''1234'' ''ann@x.com''
      ''h:1234.ann@x.com.601000.$2b$p1#601000#$2b$p1'' (1000 + ttl) 5000"
    by (simp add: specVerifies_def annEnvelope_split ttl_def memEnv_fields prepareDataForHash_def)
  have late: "\<not> specVerifies memEnv ''1234'' ''ann@x.com''
      ''h:1234.ann@x.com.601000.$2b$p1#601000#$2b$p1'' (1000 + ttl) 601001"
    by (simp add: specVerifies_def ttl_def)
  have quiet: "\<not> list_ex isFailure (verifyOtp memEnv annVerify 5000 emptyWorld)"
    by (simp add: annVerify_run)
  have fields: "verify_otp annVerify = ''1234''" "verify_email annVerify = ''ann@x.com''"
    by (simp_all add: annVerify_def)
  note at = verifyOtp_accepts_iff[OF sent num valid envelope unregistered refl, unfolded fields]
  from at[of 5000] spec quiet
  have "otpAccepted (verifyOtp memEnv annVerify 5000 emptyWorld) \<and>
        (\<exists>user. ResJson (UserBody user) \<in> set (verifyOtp memEnv annVerify 5000 emptyWorld))"
    by blast
  moreover from at[of 601001] late
  have "\<not> otpAccepted (verifyOtp memEnv annVerify 601001 emptyWorld)"
    by blast
  ultimately show ?thesis
    using sent num valid envelope unregistered spec by blast
qed

text \<open>
  C2, as amended. Take an envelope \<open>digest#expires#hashPassword\<close> that \<open>verifyOtp\<close>
  accepts for an otp and an email at the time \<open>now\<close>, and a digest that never throws and
  has no collisions. Submitting another otp, another email that is not registered
  either, or another third field makes the response exactly the 400 error
  \<open>Otp is invalid!\<close>. Putting another second field makes it the 408 error
  \<open>Otp is expired!\<close> when that field holds no \<open>#\<close> and reads as a number below \<open>now\<close>,
  and \<open>Otp is invalid!\<close> in every other case. None of the changes is accepted.
\<close>

theorem tampered_envelope_rejected:
  assumes inj: "inj (hashDataUsingCrypto E)"
    and total: "\<forall>material. \<exists>digest. hashDataUsingCrypto E material = Inr digest"
    and valid: "verify_errors req = []"
    and envelope: "verify_hashOtp req = digest @ ''#'' @ expires @ ''#'' @ hashPassword"
    and accepted: "otpAccepted (verifyOtp E req now w)"
  shows "(otp' \<noteq> verify_otp req \<longrightarrow>
            response (verifyOtp E (req\<lparr>verify_otp := otp'\<rparr>) now w)
              = [Next (HttpError 400 ''Otp is invalid!'')]) \<and>
         (email' \<noteq> verify_email req \<and> fst (findUserByEmail E email' w) = Inr None \<longrightarrow>
            response (verifyOtp E (req\<lparr>verify_email := email'\<rparr>) now w)
              = [Next (HttpError 400 ''Otp is invalid!'')]) \<and>
         (hashPassword' \<noteq> hashPassword \<longrightarrow>
            response (verifyOtp E
               (req\<lparr>verify_hashOtp := digest @ ''#'' @ expires @ ''#'' @ hashPassword'\<rparr>) now w)
              = [Next (HttpError 400 ''Otp is invalid!'')]) \<and>
         (expires' \<noteq> expires \<longrightarrow>
            response (verifyOtp E
               (req\<lparr>verify_hashOtp := digest @ ''#'' @ expires' @ ''#'' @ hashPassword\<rparr>) now w)
              = (if CHR ''#'' \<notin> set expires' \<and> now_gt now (toNumber E expires')
                 then [Next (HttpError 408 ''Otp is expired!'')]
                 else [Next (HttpError 400 ''Otp is invalid!'')]))"
proof -
  note acc = otpAccepted_verifyOtp[OF valid, of E now w, THEN iffD1, OF accepted]
  from acc have unregistered: "fst (findUserByEmail E (verify_email req) w) = Inr None"
    by simp
  from acc have "length (split CHR ''#'' (digest @ ''#'' @ expires @ ''#'' @ hashPassword)) = 3"
    by (simp add: envelope)
  from split_three_only[OF this]
  have clean: "CHR ''#'' \<notin> set digest" "CHR ''#'' \<notin> set expires" "CHR ''#'' \<notin> set hashPassword"
    by simp_all
  have parts: "split CHR ''#'' (verify_hashOtp req) = [digest, expires, hashPassword]"
    unfolding envelope using clean by (rule split_three)
  from acc parts have fresh: "\<not> now_gt now (toNumber E expires)"
    by simp
  from acc parts have matches:
    "hashDataUsingCrypto E
       (prepareDataForHash (verify_otp req) (verify_email req) expires hashPassword) = Inr digest"
    by simp
  have otp: "response (verifyOtp E (req\<lparr>verify_otp := otp'\<rparr>) now w)
               = [Next (HttpError 400 ''Otp is invalid!'')]" if "otp' \<noteq> verify_otp req"
  proof -
    from digest_differs[OF inj total matches, of
        "prepareDataForHash otp' (verify_email req) expires hashPassword"] that
    obtain d' where
      "hashDataUsingCrypto E (prepareDataForHash otp' (verify_email req) expires hashPassword)
         = Inr d'" "d' \<noteq> digest"
      by (auto simp: prepareDataForHash_otp)
    then show ?thesis
      using verifyOtp_mismatch[of "req\<lparr>verify_otp := otp'\<rparr>" E w digest expires hashPassword now d']
        valid unregistered parts fresh
      by (simp add: response_rejected)
  qed
  have email: "response (verifyOtp E (req\<lparr>verify_email := email'\<rparr>) now w)
               = [Next (HttpError 400 ''Otp is invalid!'')]"
    if "email' \<noteq> verify_email req" "fst (findUserByEmail E email' w) = Inr None"
  proof -
    from digest_differs[OF inj total matches, of
        "prepareDataForHash (verify_otp req) email' expires hashPassword"] that(1)
    obtain d' where
      "hashDataUsingCrypto E (prepareDataForHash (verify_otp req) email' expires hashPassword)
         = Inr d'" "d' \<noteq> digest"
      by (auto simp: prepareDataForHash_email)
    then show ?thesis
      using verifyOtp_mismatch[of "req\<lparr>verify_email := email'\<rparr>" E w digest expires hashPassword now d']
        valid that(2) parts fresh
      by (simp add: response_rejected)
  qed
  have password: "response (verifyOtp E
               (req\<lparr>verify_hashOtp := digest @ ''#'' @ expires @ ''#'' @ hashPassword'\<rparr>) now w)
               = [Next (HttpError 400 ''Otp is invalid!'')]" if "hashPassword' \<noteq> hashPassword"
  proof (cases "CHR ''#'' \<in> set hashPassword'")
    case True
    then have "length (split CHR ''#'' (digest @ ''#'' @ expires @ ''#'' @ hashPassword')) \<noteq> 3"
      using split_more_than_three[of "CHR ''#''" digest expires hashPassword'] by simp
    then show ?thesis
      using verifyOtp_malformed[of
          "req\<lparr>verify_hashOtp := digest @ ''#'' @ expires @ ''#'' @ hashPassword'\<rparr>" E w now]
        valid unregistered
      by (simp add: response_rejected)
  next
    case False
    with clean have parts':
      "split CHR ''#'' (digest @ ''#'' @ expires @ ''#'' @ hashPassword')
         = [digest, expires, hashPassword']"
      by (intro split_three)
    from digest_differs[OF inj total matches, of
        "prepareDataForHash (verify_otp req) (verify_email req) expires hashPassword'"] that
    obtain d' where
      "hashDataUsingCrypto E
         (prepareDataForHash (verify_otp req) (verify_email req) expires hashPassword') = Inr d'"
      "d' \<noteq> digest"
      by (auto simp: prepareDataForHash_hashPassword)
    then show ?thesis
      using verifyOtp_mismatch[of
          "req\<lparr>verify_hashOtp := digest @ ''#'' @ expires @ ''#'' @ hashPassword'\<rparr>"
          E w digest expires hashPassword' now d']
        valid unregistered parts' fresh
      by (simp add: response_rejected)
  qed
  have expiry: "response (verifyOtp E
               (req\<lparr>verify_hashOtp := digest @ ''#'' @ expires' @ ''#'' @ hashPassword\<rparr>) now w)
              = (if CHR ''#'' \<notin> set expires' \<and> now_gt now (toNumber E expires')
                 then [Next (HttpError 408 ''Otp is expired!'')]
                 else [Next (HttpError 400 ''Otp is invalid!'')])" if "expires' \<noteq> expires"
  proof (cases "CHR ''#'' \<in> set expires'")
    case True
    then have "length (split CHR ''#'' (digest @ ''#'' @ expires' @ ''#'' @ hashPassword)) \<noteq> 3"
      using split_more_than_three[of "CHR ''#''" digest expires' hashPassword] by simp
    then show ?thesis
      using verifyOtp_malformed[of
          "req\<lparr>verify_hashOtp := digest @ ''#'' @ expires' @ ''#'' @ hashPassword\<rparr>" E w now]
        valid unregistered True
      by (simp add: response_rejected)
  next
    case False
    with clean have parts':
      "split CHR ''#'' (digest @ ''#'' @ expires' @ ''#'' @ hashPassword)
         = [digest, expires', hashPassword]"
      by (intro split_three)
    show ?thesis
    proof (cases "now_gt now (toNumber E expires')")
      case True
      then show ?thesis
        using verifyOtp_expired[of
            "req\<lparr>verify_hashOtp := digest @ ''#'' @ expires' @ ''#'' @ hashPassword\<rparr>"
            E w digest expires' hashPassword now]
          valid unregistered parts' False
        by (simp add: response_rejected)
    next
      case late: False
      from digest_differs[OF inj total matches, of
          "prepareDataForHash (verify_otp req) (verify_email req) expires' hashPassword"] that
      obtain d' where
        "hashDataUsingCrypto E
           (prepareDataForHash (verify_otp req) (verify_email req) expires' hashPassword) = Inr d'"
        "d' \<noteq> digest"
        by (auto simp: prepareDataForHash_expires)
      then show ?thesis
        using verifyOtp_mismatch[of
            "req\<lparr>verify_hashOtp := digest @ ''#'' @ expires' @ ''#'' @ hashPassword\<rparr>"
            E w digest expires' hashPassword now d']
          valid unregistered parts' late
        by (simp add: response_rejected)
    qed
  qed
  from otp email password expiry show ?thesis by blast
qed

theorem tampered_envelope_rejected_witness:
  "inj (hashDataUsingCrypto memEnv) \<and>
   (\<forall>material. \<exists>digest. hashDataUsingCrypto memEnv material = Inr digest) \<and>
   verify_errors bobVerify = [] \<and>
   verify_hashOtp bobVerify = ''h:1234.bob@x.com.601000.$2b$p1'' @ ''#'' @ ''601000'' @ ''#'' @ ''$2b$p1'' \<and>
   otpAccepted (verifyOtp memEnv bobVerify 5000 annWorld) \<and>
   response (verifyOtp memEnv (bobVerify\<lparr>verify_otp := ''9999''\<rparr>) 5000 annWorld)
     = [Next (HttpError 400 ''Otp is invalid!'')] \<and>
   response (verifyOtp memEnv (bobVerify\<lparr>verify_email := ''eve@x.com''\<rparr>) 5000 annWorld)
     = [Next (HttpError 400 ''Otp is invalid!'')] \<and>
   response (verifyOtp memEnv (bobVerify\<lparr>verify_hashOtp :=
        ''h:1234.bob@x.com.601000.$2b$p1'' @ ''#'' @ ''601000'' @ ''#'' @ ''$2b$p2''\<rparr>) 5000 annWorld)
     = [Next (HttpError 400 ''Otp is invalid!'')] \<and>
   response (verifyOtp memEnv (bobVerify\<lparr>verify_hashOtp :=
        ''h:1234.bob@x.com.601000.$2b$p1'' @ ''#'' @ ''1000'' @ ''#'' @ ''$2b$p1''\<rparr>) 5000 annWorld)
     = [Next (HttpError 408 ''Otp is expired!'')] \<and>
   response (verifyOtp memEnv (bobVerify\<lparr>verify_hashOtp :=
        ''h:1234.bob@x.com.601000.$2b$p1'' @ ''#'' @ ''701000'' @ ''#'' @ ''$2b$p1''\<rparr>) 5000 annWorld)
     = [Next (HttpError 400 ''Otp is invalid!'')]"
proof -
  have inj: "inj (hashDataUsingCrypto memEnv)"
    by (simp add: inj_def memEnv_fields)
  have total: "\<forall>material. \<exists>digest. hashDataUsingCrypto memEnv material = Inr digest"
    by (simp add: memEnv_fields)
  have valid: "verify_errors bobVerify = []"
    by (simp add: bobVerify_def)
  have envelope: "verify_hashOtp bobVerify =
      ''h:1234.bob@x.com.601000.$2b$p1'' @ ''#'' @ ''601000'' @ ''#'' @ ''$2b$p1''"
    by (simp add: bobVerify_def)
  have accepted: "otpAccepted (verifyOtp memEnv bobVerify 5000 annWorld)"
    using otpAccepted_verifyOtp[of bobVerify memEnv 5000 annWorld] bob_unregistered
    by (simp add: bobVerify_def bobEnvelope_split memEnv_fields digitsToNumber_601000
        prepareDataForHash_def)
  have eve: "fst (findUserByEmail memEnv ''eve@x.com'' annWorld) = Inr None"
    by (simp add: memEnv_fields annWorld_def ann_def)
  have late: "now_gt 5000 (toNumber memEnv ''1000'')"
    by (simp add: memEnv_fields digitsToNumber_1000)
  have early: "\<not> now_gt 5000 (toNumber memEnv ''701000'')"
    by (simp add: memEnv_fields digitsToNumber_def)
  note t = tampered_envelope_rejected[OF inj total valid envelope accepted]
  have "response (verifyOtp memEnv (bobVerify\<lparr>verify_otp := ''9999''\<rparr>) 5000 annWorld)
     = [Next (HttpError 400 ''Otp is invalid!'')]"
    using t[of "''9999''"] by (simp add: bobVerify_def)
  moreover have "response (verifyOtp memEnv (bobVerify\<lparr>verify_email := ''eve@x.com''\<rparr>) 5000 annWorld)
     = [Next (HttpError 400 ''Otp is invalid!'')]"
    using t[of _ "''eve@x.com''"] eve by (simp add: bobVerify_def)
  moreover have "response (verifyOtp memEnv (bobVerify\<lparr>verify_hashOtp :=
        ''h:1234.bob@x.com.601000.$2b$p1'' @ ''#'' @ ''601000'' @ ''#'' @ ''$2b$p2''\<rparr>) 5000 annWorld)
     = [Next (HttpError 400 ''Otp is invalid!'')]"
    using t[of _ _ "''$2b$p2''"] by simp
  moreover have "response (verifyOtp memEnv (bobVerify\<lparr>verify_hashOtp :=
        ''h:1234.bob@x.com.601000.$2b$p1'' @ ''#'' @ ''1000'' @ ''#'' @ ''$2b$p1''\<rparr>) 5000 annWorld)
     = [Next (HttpError 408 ''Otp is expired!'')]"
    using t[of _ _ _ "''1000''"] late by simp
  moreover have "response (verifyOtp memEnv (bobVerify\<lparr>verify_hashOtp :=
        ''h:1234.bob@x.com.601000.$2b$p1'' @ ''#'' @ ''701000'' @ ''#'' @ ''$2b$p1''\<rparr>) 5000 annWorld)
     = [Next (HttpError 400 ''Otp is invalid!'')]"
    using t[of _ _ _ "''701000''"] early by simp
  ultimately show ?thesis
    using inj total valid envelope accepted by blast
qed

text \<open>
  The claim as first stated fails where the expiry is checked before the digest: with
  the second field of Bob's envelope changed from \<open>601000\<close> to \<open>1000\<close>, the check at time
  5000 answers \<open>Otp is expired!\<close>, not \<open>Otp is invalid!\<close>; and with the email changed to
  Ann's, who is registered, it answers \<open>This email already registered!\<close>.
\<close>

theorem tampered_expiry_counterexample:
  "otpAccepted (verifyOtp memEnv bobVerify 5000 annWorld) \<and>
   response (verifyOtp memEnv
      (bobVerify\<lparr>verify_hashOtp := ''h:1234.bob@x.com.601000.$2b$p1#1000#$2b$p1''\<rparr>) 5000 annWorld)
     = [Next (HttpError 408 ''Otp is expired!'')] \<and>
   response (verifyOtp memEnv
      (bobVerify\<lparr>verify_hashOtp := ''h:1234.bob@x.com.601000.$2b$p1#1000#$2b$p1''\<rparr>) 5000 annWorld)
     \<noteq> [Next (HttpError 400 ''Otp is invalid!'')] \<and>
   response (verifyOtp memEnv (bobVerify\<lparr>verify_email := ''ann@x.com''\<rparr>) 5000 annWorld)
     = [Next (HttpError 400 ''This email already registered!'')]"
proof -
  have "otpAccepted (verifyOtp memEnv bobVerify 5000 annWorld)"
    using otpAccepted_verifyOtp[of bobVerify memEnv 5000 annWorld] bob_unregistered
    by (simp add: bobVerify_def bobEnvelope_split memEnv_fields digitsToNumber_601000
        prepareDataForHash_def)
  moreover have "response (verifyOtp memEnv
      (bobVerify\<lparr>verify_hashOtp := ''h:1234.bob@x.com.601000.$2b$p1#1000#$2b$p1''\<rparr>) 5000 annWorld)
     = [Next (HttpError 408 ''Otp is expired!'')]"
    using verifyOtp_expired[of
        "bobVerify\<lparr>verify_hashOtp := ''h:1234.bob@x.com.601000.$2b$p1#1000#$2b$p1''\<rparr>"
        memEnv annWorld "''h:1234.bob@x.com.601000.$2b$p1''" "''1000''" "''$2b$p1''" 5000]
      bob_unregistered
    by (simp add: bobVerify_def bobEnvelope_split memEnv_fields digitsToNumber_1000
        response_rejected)
  moreover have "response (verifyOtp memEnv (bobVerify\<lparr>verify_email := ''ann@x.com''\<rparr>) 5000 annWorld)
     = [Next (HttpError 400 ''This email already registered!'')]"
    using verifyOtp_registered[of "bobVerify\<lparr>verify_email := ''ann@x.com''\<rparr>" memEnv annWorld
        "ann\<lparr>user_password := None\<rparr>" 5000] ann_registered
    by (simp add: bobVerify_def response_rejected)
  ultimately show ?thesis by simp
qed

text \<open>
  C3. An envelope that is valid but for its age passes the otp check at the very
  millisecond of its expiry, and the request ends with the user as its body unless a
  later call fails; one millisecond later the only thing that reaches the client is
  the 408 error \<open>Otp is expired!\<close>, which is not the 400 error \<open>Otp is invalid!\<close>.
\<close>

theorem verifyOtp_expiry_boundary:
  assumes valid: "verify_errors req = []"
    and envelope: "verify_hashOtp req = digest @ ''#'' @ numberToString expiresAt @ ''#'' @ hashPassword"
    and fields: "CHR ''#'' \<notin> set digest" "CHR ''#'' \<notin> set hashPassword"
    and num: "toNumber E (numberToString expiresAt) = Finite (of_int expiresAt)"
    and matches: "hashDataUsingCrypto E
                    (prepareDataForHash (verify_otp req) (verify_email req)
                       (numberToString expiresAt) hashPassword) = Inr digest"
    and unregistered: "fst (findUserByEmail E (verify_email req) w) = Inr None"
                      "fst (findUserByEmail E (verify_email req) w') = Inr None"
  shows "otpAccepted (verifyOtp E req expiresAt w) \<and>
         (\<not> list_ex isFailure (verifyOtp E req expiresAt w) \<longrightarrow>
            (\<exists>user. ResJson (UserBody user) \<in> set (verifyOtp E req expiresAt w))) \<and>
         response (verifyOtp E req (expiresAt + 1) w') = [Next (HttpError 408 ''Otp is expired!'')] \<and>
         HttpError 408 ''Otp is expired!'' \<noteq> HttpError 400 ''Otp is invalid!''"
proof -
  have parts: "split CHR ''#'' (verify_hashOtp req) = [digest, numberToString expiresAt, hashPassword]"
    unfolding envelope using fields numberToString_no_hash[of expiresAt] split_three by blast
  have accepted: "otpAccepted (verifyOtp E req expiresAt w)"
    using otpAccepted_verifyOtp[OF valid, of E expiresAt w] parts num matches unregistered(1)
    by simp
  have "now_gt (expiresAt + 1) (toNumber E (numberToString expiresAt))"
    unfolding num by simp
  then have "response (verifyOtp E req (expiresAt + 1) w') = [Next (HttpError 408 ''Otp is expired!'')]"
    using verifyOtp_expired[OF valid unregistered(2) parts] by (simp add: response_def)
  with accepted show ?thesis
    using verifyOtp_answers_user[of E req expiresAt w] by simp
qed

theorem verifyOtp_expiry_boundary_witness:
  "verify_errors annVerify = [] \<and>
   verify_hashOtp annVerify =
     ''h:1234.ann@x.com.601000.$2b$p1'' @ ''#'' @ numberToString 601000 @ ''#'' @ ''$2b$p1'' \<and>
   CHR ''#'' \<notin> set ''h:1234.ann@x.com.601000.$2b$p1'' \<and>
   CHR ''#'' \<notin> set ''$2b$p1'' \<and>
   toNumber memEnv (numberToString 601000) = Finite (of_int 601000) \<and>
   hashDataUsingCrypto memEnv
     (prepareDataForHash (verify_otp annVerify) (verify_email annVerify)
        (numberToString 601000) ''$2b$p1'') = Inr ''h:1234.ann@x.com.601000.$2b$p1'' \<and>
   fst (findUserByEmail memEnv (verify_email annVerify) emptyWorld) = Inr None \<and>
   otpAccepted (verifyOtp memEnv annVerify 601000 emptyWorld) \<and>
   response (verifyOtp memEnv annVerify (601000 + 1) emptyWorld) =
     [Next (HttpError 408 ''Otp is expired!'')]"
proof -
  have valid: "verify_errors annVerify = []"
    by (simp add: annVerify_def)
  have envelope: "verify_hashOtp annVerify =
      ''h:1234.ann@x.com.601000.$2b$p1'' @ ''#'' @ numberToString 601000 @ ''#'' @ ''$2b$p1''"
    by (simp add: annVerify_def numberToString_601000)
  have f1: "CHR ''#'' \<notin> set ''h:1234.ann@x.com.601000.$2b$p1''"
    by simp
  have f2: "CHR ''#'' \<notin> set ''$2b$p1''"
    by simp
  have num: "toNumber memEnv (numberToString 601000) = Finite (of_int 601000)"
    by (simp add: numberToString_601000 memEnv_fields digitsToNumber_601000)
  have matches: "hashDataUsingCrypto memEnv
      (prepareDataForHash (verify_otp annVerify) (verify_email annVerify)
         (numberToString 601000) ''$2b$p1'') = Inr ''h:1234.ann@x.com.601000.$2b$p1''"
    by (simp add: memEnv_fields prepareDataForHash_def annVerify_def numberToString_601000)
  have unregistered: "fst (findUserByEmail memEnv (verify_email annVerify) emptyWorld) = Inr None"
    by (simp add: memEnv_fields emptyWorld_def)
  from verifyOtp_expiry_boundary[OF valid envelope f1 f2 num matches unregistered unregistered]
  show ?thesis
    using valid envelope num matches unregistered by simp
qed





text \<open>
  C6. A valid login request for an email no user has, and one for a known email whose
  password does not compare equal, leave the handler with the same response: the one
  error \<open>400 Email or Password does not match!\<close> handed to \<open>next\<close>.
\<close>

theorem login_same_error:
  assumes "login_errors req = []"
  shows "(fst (findUserByEmailWithPassword E (login_email req) w) = Inr None \<longrightarrow>
            response (login E req w) = [Next (HttpError 400 ''Email or Password does not match!'')]) \<and>
         (findUserByEmailWithPassword E (login_email req) w = (Inr (Some user), w1) \<and>
          fst (hashCompare E (login_password req) (user_password user) w1) = Inr False \<longrightarrow>
            response (login E req w) = [Next (HttpError 400 ''Email or Password does not match!'')])"
  using assms unfolding login_def response_def
  by (simp add: split_beta)

theorem login_same_error_witness:
  "login_errors (annLogin\<lparr>login_email := ''eve@x.com''\<rparr>) = [] \<and>
   fst (findUserByEmailWithPassword memEnv ''eve@x.com'' annWorld) = Inr None \<and>
   response (login memEnv (annLogin\<lparr>login_email := ''eve@x.com''\<rparr>) annWorld)
     = [Next (HttpError 400 ''Email or Password does not match!'')] \<and>
   findUserByEmailWithPassword memEnv ''ann@x.com'' annWorld = (Inr (Some ann), annWorld) \<and>
   fst (hashCompare memEnv ''p2'' (user_password ann) annWorld) = Inr False \<and>
   response (login memEnv (annLogin\<lparr>login_password := ''p2''\<rparr>) annWorld)
     = [Next (HttpError 400 ''Email or Password does not match!'')]"
proof -
  have v1: "login_errors (annLogin\<lparr>login_email := ''eve@x.com''\<rparr>) = []"
    and v2: "login_errors (annLogin\<lparr>login_password := ''p2''\<rparr>) = []"
    by (simp_all add: annLogin_def)
  have unknown: "fst (findUserByEmailWithPassword memEnv ''eve@x.com'' annWorld) = Inr None"
    by (simp add: memEnv_def annWorld_def ann_def)
  have known: "findUserByEmailWithPassword memEnv ''ann@x.com'' annWorld = (Inr (Some ann), annWorld)"
    by (simp add: memEnv_def annWorld_def ann_def)
  have wrong: "fst (hashCompare memEnv ''p2'' (user_password ann) annWorld) = Inr False"
    by (simp add: memEnv_def ann_def)
  from login_same_error[OF v1, of memEnv annWorld] unknown
  have "response (login memEnv (annLogin\<lparr>login_email := ''eve@x.com''\<rparr>) annWorld)
     = [Next (HttpError 400 ''Email or Password does not match!'')]"
    by (simp add: annLogin_def)
  moreover from login_same_error[OF v2, of memEnv annWorld ann annWorld] known wrong
  have "response (login memEnv (annLogin\<lparr>login_password := ''p2''\<rparr>) annWorld)
     = [Next (HttpError 400 ''Email or Password does not match!'')]"
    by (simp add: annLogin_def)
  ultimately show ?thesis
    using v1 unknown known wrong by blast
qed



text \<open>
  C8. \<open>sendOtp\<close> answers a valid request whose two passwords differ with the error
  \<open>confirm password not match to password!\<close>, and one whose email is registered with
  \<open>This email already registered!\<close>. \<open>verifyOtp\<close> answers a valid request whose email is
  registered with the same error and does not call \<open>saveUser\<close>; whenever it does call
  \<open>saveUser\<close>, its run started with a \<open>findUserByEmail\<close> that found nobody.
\<close>

theorem registration_guards_email:
  "(send_errors sreq = [] \<and> send_password sreq \<noteq> send_confirmPassword sreq \<longrightarrow>
      response (sendOtp E sreq now w)
        = [Next (HttpError 400 ''confirm password not match to password!'')]) \<and>
   (send_errors sreq = [] \<and> send_password sreq = send_confirmPassword sreq \<and>
    fst (findUserByEmail E (send_email sreq) w) = Inr (Some u) \<longrightarrow>
      response (sendOtp E sreq now w) = [Next (HttpError 400 ''This email already registered!'')]) \<and>
   (verify_errors vreq = [] \<and> fst (findUserByEmail E (verify_email vreq) w') = Inr (Some u') \<longrightarrow>
      response (verifyOtp E vreq now' w') = [Next (HttpError 400 ''This email already registered!'')] \<and>
      \<not> list_ex isSaveUser (verifyOtp E vreq now' w')) \<and>
   (list_ex isSaveUser (verifyOtp E vreq now' w') \<longrightarrow>
      hd (verifyOtp E vreq now' w') = FindUserByEmail (verify_email vreq) (Inr None))"
proof -
  have "response (sendOtp E sreq now w)
        = [Next (HttpError 400 ''confirm password not match to password!'')]"
    if "send_errors sreq = []" "send_password sreq \<noteq> send_confirmPassword sreq"
    using that unfolding sendOtp_def response_def by simp
  moreover have "response (sendOtp E sreq now w)
        = [Next (HttpError 400 ''This email already registered!'')]"
    if "send_errors sreq = []" "send_password sreq = send_confirmPassword sreq"
      "fst (findUserByEmail E (send_email sreq) w) = Inr (Some u)"
    using that unfolding sendOtp_def response_def by (simp add: split_beta)
  moreover have "response (verifyOtp E vreq now' w')
        = [Next (HttpError 400 ''This email already registered!'')] \<and>
      \<not> list_ex isSaveUser (verifyOtp E vreq now' w')"
    if "verify_errors vreq = []" "fst (findUserByEmail E (verify_email vreq) w') = Inr (Some u')"
    using verifyOtp_registered[OF that, of now'] by (simp add: response_rejected)
  ultimately show ?thesis
    using verifyOtp_saveUser_after_check[of E vreq now' w'] by blast
qed

theorem registration_guards_email_witness:
  "send_errors (annSend\<lparr>send_confirmPassword := ''p2''\<rparr>) = [] \<and>
   send_password (annSend\<lparr>send_confirmPassword := ''p2''\<rparr>)
     \<noteq> send_confirmPassword (annSend\<lparr>send_confirmPassword := ''p2''\<rparr>) \<and>
   response (sendOtp memEnv (annSend\<lparr>send_confirmPassword := ''p2''\<rparr>) 1000 emptyWorld)
     = [Next (HttpError 400 ''confirm password not match to password!'')] \<and>
   send_errors annSend = [] \<and> send_password annSend = send_confirmPassword annSend \<and>
   fst (findUserByEmail memEnv (send_email annSend) annWorld)
     = Inr (Some (ann\<lparr>user_password := None\<rparr>)) \<and>
   response (sendOtp memEnv annSend 1000 annWorld)
     = [Next (HttpError 400 ''This email already registered!'')] \<and>
   verify_errors annVerify = [] \<and>
   fst (findUserByEmail memEnv (verify_email annVerify) annWorld)
     = Inr (Some (ann\<lparr>user_password := None\<rparr>)) \<and>
   response (verifyOtp memEnv annVerify 5000 annWorld)
     = [Next (HttpError 400 ''This email already registered!'')] \<and>
   \<not> list_ex isSaveUser (verifyOtp memEnv annVerify 5000 annWorld) \<and>
   list_ex isSaveUser (verifyOtp memEnv annVerify 5000 emptyWorld) \<and>
   hd (verifyOtp memEnv annVerify 5000 emptyWorld) = FindUserByEmail ''ann@x.com'' (Inr None)"
proof -
  have p: "send_errors (annSend\<lparr>send_confirmPassword := ''p2''\<rparr>) = []"
    "send_password (annSend\<lparr>send_confirmPassword := ''p2''\<rparr>)
       \<noteq> send_confirmPassword (annSend\<lparr>send_confirmPassword := ''p2''\<rparr>)"
    by (simp_all add: annSend_def)
  have s: "send_errors annSend = []" "send_password annSend = send_confirmPassword annSend"
    "fst (findUserByEmail memEnv (send_email annSend) annWorld)
       = Inr (Some (ann\<lparr>user_password := None\<rparr>))"
    by (simp_all add: annSend_def ann_registered)
  have v: "verify_errors annVerify = []"
    "fst (findUserByEmail memEnv (verify_email annVerify) annWorld)
       = Inr (Some (ann\<lparr>user_password := None\<rparr>))"
    by (simp_all add: annVerify_def ann_registered)
  have r: "list_ex isSaveUser (verifyOtp memEnv annVerify 5000 emptyWorld)"
    by (simp add: annVerify_run)
  have "response (sendOtp memEnv (annSend\<lparr>send_confirmPassword := ''p2''\<rparr>) 1000 emptyWorld)
     = [Next (HttpError 400 ''confirm password not match to password!'')]"
    using registration_guards_email[of "annSend\<lparr>send_confirmPassword := ''p2''\<rparr>"
        memEnv 1000 emptyWorld] p
    by blast
  moreover have "response (sendOtp memEnv annSend 1000 annWorld)
     = [Next (HttpError 400 ''This email already registered!'')]"
    using registration_guards_email[of annSend memEnv 1000 annWorld
        "ann\<lparr>user_password := None\<rparr>"] s
    by blast
  moreover have "response (verifyOtp memEnv annVerify 5000 annWorld)
     = [Next (HttpError 400 ''This email already registered!'')] \<and>
   \<not> list_ex isSaveUser (verifyOtp memEnv annVerify 5000 annWorld)"
    using registration_guards_email[of _ memEnv _ _ _ annVerify annWorld
        "ann\<lparr>user_password := None\<rparr>" 5000] v
    by blast
  moreover have "hd (verifyOtp memEnv annVerify 5000 emptyWorld)
      = FindUserByEmail (verify_email annVerify) (Inr None)"
    using registration_guards_email[of _ memEnv _ _ _ annVerify emptyWorld _ 5000] r
    by blast
  ultimately show ?thesis
    using p s v r by (simp add: annVerify_def)
qed

text \<open>
  C9. \<open>logout\<close> calls \<open>deleteToken\<close> with the number of the presented token id; when
  the call returns, whatever it reports about having found a record, both cookies are
  cleared, in this order after the deletion, and the body \<open>User successfully logout.\<close>
  is sent.
\<close>

theorem logout_clears_cookies:
  assumes "fst (deleteToken E (toNumber E (auth_tokenId req)) w) = Inr found"
  shows "logout E req w =
           [DeleteToken (toNumber E (auth_tokenId req)) (Inr found),
            ResClearCookie ''accessToken'', ResClearCookie ''refreshToken'',
            ResJson (LogoutBody None ''User successfully logout.'')]"
  using assms unfolding logout_def by (simp add: split_beta Let_def)

theorem logout_clears_cookies_witness:
  "fst (deleteToken memEnv (toNumber memEnv (auth_tokenId annLogout)) sessionWorld) = Inr True \<and>
   logout memEnv annLogout sessionWorld =
     [DeleteToken (Finite 7) (Inr True),
      ResClearCookie ''accessToken'', ResClearCookie ''refreshToken'',
      ResJson (LogoutBody None ''User successfully logout.'')] \<and>
   fst (deleteToken memEnv (toNumber memEnv (auth_tokenId annLogout)) annWorld) = Inr False \<and>
   logout memEnv annLogout annWorld =
     [DeleteToken (Finite 7) (Inr False),
      ResClearCookie ''accessToken'', ResClearCookie ''refreshToken'',
      ResJson (LogoutBody None ''User successfully logout.'')]"
proof -
  have found: "fst (deleteToken memEnv (toNumber memEnv (auth_tokenId annLogout)) sessionWorld)
      = Inr True"
    by (simp add: annLogout_number) (simp add: memEnv_def sessionWorld_def)
  have gone: "fst (deleteToken memEnv (toNumber memEnv (auth_tokenId annLogout)) annWorld)
      = Inr False"
    by (simp add: annLogout_number) (simp add: memEnv_def annWorld_def)
  from logout_clears_cookies[OF found] logout_clears_cookies[OF gone] found gone
  show ?thesis
    by (simp add: annLogout_number)
qed

text \<open>
  C10. Whenever \<open>sendOtp\<close> answers with an envelope, the envelope's middle part is the
  decimal of the time of the call plus 600000 milliseconds (\<open>ttl\<close>, ten minutes), the
  digest in front of it is taken over that same expiry, and splitting the envelope on
  \<open>#\<close> gives that expiry as the second field when the digest holds no \<open>#\<close>.
\<close>

theorem sendOtp_expires_ten_minutes:
  assumes "ResJson (SendOtpBody fullName email hashOtp otp) \<in> set (sendOtp E req now w)"
  shows "ttl = 10 * 60 * 1000 \<and>
         (\<exists>hashOtpData hashPassword.
            hashOtp = hashOtpData @ ''#'' @ numberToString (now + 600000) @ ''#'' @ hashPassword \<and>
            hashDataUsingCrypto E
              (prepareDataForHash otp (send_email req) (numberToString (now + 600000)) hashPassword)
              = Inr hashOtpData \<and>
            (CHR ''#'' \<notin> set hashOtpData \<longrightarrow>
               split CHR ''#'' hashOtp ! 1 = numberToString (now + 600000)))"
proof -
  have t: "ttl = 600000" by (simp add: ttl_def)
  from sendOtp_body[OF assms] obtain d p where
    h: "hashDataUsingCrypto E
          (prepareDataForHash otp (send_email req) (numberToString (now + ttl)) p) = Inr d"
    and e: "hashOtp = d @ ''#'' @ numberToString (now + ttl) @ ''#'' @ p"
    by blast
  have "split CHR ''#'' hashOtp ! 1 = numberToString (now + 600000)" if "CHR ''#'' \<notin> set d"
    using that e t numberToString_no_hash[of "now + 600000"]
    by (simp add: split_append)
  with h e t show ?thesis by auto
qed

theorem sendOtp_expires_ten_minutes_witness:
  "ResJson (SendOtpBody ''Ann'' ''ann@x.com'' ''h:1234.ann@x.com.601000.$2b$p1#601000#$2b$p1'' ''1234'')
     \<in> set (sendOtp memEnv annSend 1000 emptyWorld) \<and>
   (\<exists>hashOtpData hashPassword.
      ''h:1234.ann@x.com.601000.$2b$p1#601000#$2b$p1'' =
        hashOtpData @ ''#'' @ numberToString (1000 + 600000) @ ''#'' @ hashPassword \<and>
      hashDataUsingCrypto memEnv
        (prepareDataForHash ''1234'' (send_email annSend) (numberToString (1000 + 600000))
           hashPassword) = Inr hashOtpData) \<and>
   split CHR ''#'' ''h:1234.ann@x.com.601000.$2b$p1#601000#$2b$p1'' ! 1 = ''601000''"
proof -
  have sent: "ResJson (SendOtpBody ''Ann'' ''ann@x.com''
      ''h:1234.ann@x.com.601000.$2b$p1#601000#$2b$p1'' ''1234'')
     \<in> set (sendOtp memEnv annSend 1000 emptyWorld)"
    by (simp add: annSend_run)
  from sendOtp_expires_ten_minutes[OF sent] have
    "\<exists>hashOtpData hashPassword.
      ''h:1234.ann@x.com.601000.$2b$p1#601000#$2b$p1'' =
        hashOtpData @ ''#'' @ numberToString (1000 + 600000) @ ''#'' @ hashPassword \<and>
      hashDataUsingCrypto memEnv
        (prepareDataForHash ''1234'' (send_email annSend) (numberToString (1000 + 600000))
           hashPassword) = Inr hashOtpData"
    by blast
  then show ?thesis
    using sent by (simp add: annEnvelope_split)
qed

end
